theory Spec2Isabelle
  imports Main "HOL-Library.Sublist"
begin

section \<open>The completeness scorer of \<^verbatim>\<open>agents/validator_agent.py\<close>\<close>

text \<open>
  The development embeds \<^verbatim>\<open>ValidatorAgent.validate\<close> and
  \<^verbatim>\<open>ValidatorAgent.format_report\<close>. Python values are modelled as follows.

  \<^item> A \<^verbatim>\<open>str\<close> is a \<^typ>\<open>string\<close>; one \<^typ>\<open>char\<close> stands for one code point
    in the range 0..255 (ASCII and the Latin-1 supplement), so the model covers the
    documents and keywords written with these code points.
  \<^item> A Python \<^verbatim>\<open>int\<close> is an \<^typ>\<open>int\<close> (unbounded).
  \<^item> A Python \<^verbatim>\<open>float\<close> is an IEEE 754 binary64 number; a finite one is the pair
    \<open>(m, k)\<close> of integers that stands for \<open>m * 2 ^ k\<close>.
  \<^item> A dictionary read with \<^verbatim>\<open>d[key]\<close> or \<^verbatim>\<open>d.get(key, default)\<close> has an
    optional entry per key: \<open>None\<close> is the absent key.
  \<^item> A raised exception is the \<open>Inl\<close> branch of a sum.
\<close>

subsection \<open>Strings\<close>

text \<open>
  \<^verbatim>\<open>str.lower()\<close> on the code points 0..255: the capital letters \<^verbatim>\<open>A\<close>..\<^verbatim>\<open>Z\<close>
  (65..90) and the Latin-1 capitals (192..222 without the multiplication sign 215) move
  up by 32, every other code point stays.
\<close>

definition lower_char :: "char \<Rightarrow> char" where
  "lower_char c =
     (let n = (of_char c :: nat)
      in if (65 \<le> n \<and> n \<le> 90) \<or> (192 \<le> n \<and> n \<le> 222 \<and> n \<noteq> 215)
         then char_of (n + 32) else c)"

definition str_lower :: "string \<Rightarrow> string" where
  "str_lower s = map lower_char s"

text \<open>\<^verbatim>\<open>needle in haystack\<close> on strings: the needle starts at some position.\<close>

fun str_contains :: "string \<Rightarrow> string \<Rightarrow> bool" where
  "str_contains needle [] = (needle = [])"
| "str_contains needle (c # cs) = (prefix needle (c # cs) \<or> str_contains needle cs)"

subsection \<open>Exceptions\<close>

datatype error = KeyError string | ZeroDivisionError | OverflowError

subsection \<open>Floating point: \<^verbatim>\<open>int / int\<close>, \<^verbatim>\<open>float * 100\<close> and \<^verbatim>\<open>int(float)\<close>\<close>

text \<open>
  Line 98 computes \<^verbatim>\<open>int((total_score / max_score * 100))\<close>. In Python 3 the quotient
  of two \<^verbatim>\<open>int\<close>s is the binary64 number nearest to the exact quotient (ties to the
  even significand), and \<^verbatim>\<open>OverflowError\<close> when that is out of range; the product
  is the binary64 number nearest to the exact product, or an infinity; \<^verbatim>\<open>int\<close>
  truncates a finite float toward zero and raises \<^verbatim>\<open>OverflowError\<close> on an infinity.
\<close>

text \<open>The number of binary digits of a positive integer.\<close>

function bit_length :: "int \<Rightarrow> int" where
  "bit_length n = (if n \<le> 0 then 0 else 1 + bit_length (n div 2))"
  by auto
termination
  by (relation "measure nat") auto

declare bit_length.simps [simp del]

text \<open>\<open>pow2_le e n d\<close> is \<open>2 ^ e \<le> n / d\<close> for a positive denominator.\<close>

definition pow2_le :: "int \<Rightarrow> int \<Rightarrow> int \<Rightarrow> bool" where
  "pow2_le e n d = (if 0 \<le> e then d * 2 ^ nat e \<le> n else d \<le> n * 2 ^ nat (- e))"

text \<open>\<open>floor_log2 n d\<close> is the binary exponent of the positive fraction \<open>n / d\<close>.\<close>

definition floor_log2 :: "int \<Rightarrow> int \<Rightarrow> int" where
  "floor_log2 n d =
     (let b = bit_length n - bit_length d
      in if pow2_le b n d then b else b - 1)"

text \<open>\<open>rne_div n d\<close> is \<open>n / d\<close> rounded to the nearest integer, a tie to the even one.\<close>

definition rne_div :: "int \<Rightarrow> int \<Rightarrow> int" where
  "rne_div n d =
     (let q = n div d; r = n mod d
      in if 2 * r < d then q
         else if d < 2 * r then q + 1
         else if even q then q else q + 1)"

text \<open>
  The binary64 number nearest to \<open>n / d\<close> (\<open>0 \<le> n\<close>, \<open>0 < d\<close>): 53 significant bits,
  the exponent of the last place at least \<open>-1074\<close> (subnormal numbers), and \<open>None\<close>
  when the rounded value reaches \<open>2 ^ 1024\<close>.
\<close>

definition round_binary64 :: "int \<Rightarrow> int \<Rightarrow> (int \<times> int) option" where
  "round_binary64 n d =
     (if n = 0 then Some (0, 0)
      else
        let k = max (floor_log2 n d) (- 1022) - 52;
            m = (if 0 \<le> k then rne_div n (d * 2 ^ nat k) else rne_div (n * 2 ^ nat (- k)) d)
        in if 0 \<le> k \<and> 2 ^ 1024 \<le> m * 2 ^ nat k then None else Some (m, k))"

definition true_div :: "int \<Rightarrow> int \<Rightarrow> error + int \<times> int" where
  "true_div a b =
     (if b = 0 then Inl ZeroDivisionError
      else case round_binary64 \<bar>a\<bar> \<bar>b\<bar> of
             None \<Rightarrow> Inl OverflowError
           | Some (m, k) \<Rightarrow> Inr (sgn a * sgn b * m, k))"

text \<open>The float \<open>(m, k)\<close> times the integer \<open>c\<close> (here 100, itself a float); \<open>None\<close> is an infinity.\<close>

definition float_mul :: "int \<times> int \<Rightarrow> int \<Rightarrow> (int \<times> int) option" where
  "float_mul x c =
     (case x of (m, k) \<Rightarrow>
        let p = m * c;
            r = (if 0 \<le> k then round_binary64 (\<bar>p\<bar> * 2 ^ nat k) 1
                 else round_binary64 \<bar>p\<bar> (2 ^ nat (- k)))
        in map_option (\<lambda>(m', k'). (sgn p * m', k')) r)"

definition int_of_float :: "(int \<times> int) option \<Rightarrow> error + int" where
  "int_of_float x =
     (case x of
        None \<Rightarrow> Inl OverflowError
      | Some (m, k) \<Rightarrow>
          Inr (if 0 \<le> k then m * 2 ^ nat k else sgn m * (\<bar>m\<bar> div 2 ^ nat (- k))))"

text \<open>\<^verbatim>\<open>int((total_score / max_score * 100))\<close>\<close>

definition percentage :: "int \<Rightarrow> int \<Rightarrow> error + int" where
  "percentage total_score max_score =
     (case true_div total_score max_score of
        Inl e \<Rightarrow> Inl e
      | Inr q \<Rightarrow> int_of_float (float_mul q 100))"

subsection \<open>The template and the section results\<close>

text \<open>
  A section of the template is a dictionary. The loop reads \<^verbatim>\<open>section['name']\<close>,
  \<^verbatim>\<open>section['required']\<close> and \<^verbatim>\<open>section['severity']\<close> by subscript (an absent key
  raises \<^verbatim>\<open>KeyError\<close>) and \<^verbatim>\<open>section.get('keywords', [])\<close> with a default.
\<close>

record section_dict =
  sec_name :: "string option"
  sec_required :: "bool option"
  sec_severity :: "string option"
  sec_keywords :: "string list option"

text \<open>
  The parsed YAML template: \<^verbatim>\<open>template.get('sections', [])\<close> and
  \<^verbatim>\<open>template.get('scoring', {})\<close>.
\<close>

record template =
  tmpl_sections :: "section_dict list option"
  tmpl_scoring :: "(string \<rightharpoonup> int) option"

record ValidationResult =
  section_name :: string
  required :: bool
  found :: bool
  severity :: string
  keywords_found :: "string list"
  score :: int

subsection \<open>\<^verbatim>\<open>ValidatorAgent.validate\<close>\<close>

text \<open>The variables of the loop: \<^verbatim>\<open>results\<close>, \<^verbatim>\<open>total_score\<close>, \<^verbatim>\<open>max_score\<close>.\<close>

record loop_state =
  results :: "ValidationResult list"
  total_score :: int
  max_score :: int

definition get_scoring :: "template \<Rightarrow> (string \<rightharpoonup> int)" where
  "get_scoring t = (case tmpl_scoring t of None \<Rightarrow> Map.empty | Some m \<Rightarrow> m)"

definition get_sections :: "template \<Rightarrow> section_dict list" where
  "get_sections t = (case tmpl_sections t of None \<Rightarrow> [] | Some ss \<Rightarrow> ss)"

text \<open>
  The body of the \<^verbatim>\<open>for\<close> loop, in two parts. Lines 65 to 77 and 87 to 94 read the
  section and build its \<^verbatim>\<open>ValidationResult\<close>; \<open>check_section\<close> returns it with
  \<^verbatim>\<open>section_weight\<close>.
\<close>

definition check_section :: "(string \<rightharpoonup> int) \<Rightarrow> string \<Rightarrow> section_dict \<Rightarrow> error + ValidationResult \<times> int" where
  "check_section scoring prd_lower sec =
     (case sec_name sec of
        None \<Rightarrow> Inl (KeyError ''name'')
      | Some name \<Rightarrow>
     (case sec_required sec of
        None \<Rightarrow> Inl (KeyError ''required'')
      | Some req \<Rightarrow>
     (case sec_severity sec of
        None \<Rightarrow> Inl (KeyError ''severity'')
      | Some sev \<Rightarrow>
          let keywords = (case sec_keywords sec of None \<Rightarrow> [] | Some ks \<Rightarrow> ks);
              kws_found = filter (\<lambda>kw. str_contains (str_lower kw) prd_lower) keywords;
              fnd = (length kws_found > 0);
              weight_key = sev @ ''_weight'';
              section_weight = (case scoring weight_key of None \<Rightarrow> 0 | Some w \<Rightarrow> w);
              section_score = (if fnd then section_weight else 0)
          in Inr (\<lparr>section_name = name, required = req, found = fnd, severity = sev,
                   keywords_found = kws_found, score = section_score\<rparr>,
                  section_weight))))"

text \<open>Lines 80 to 84 and 95 update \<^verbatim>\<open>max_score\<close>, \<^verbatim>\<open>total_score\<close> and \<^verbatim>\<open>results\<close>.\<close>

definition loop_body :: "(string \<rightharpoonup> int) \<Rightarrow> string \<Rightarrow> section_dict \<Rightarrow> loop_state \<Rightarrow> error + loop_state" where
  "loop_body scoring prd_lower sec st =
     (case check_section scoring prd_lower sec of
        Inl e \<Rightarrow> Inl e
      | Inr (result, section_weight) \<Rightarrow>
          Inr \<lparr>results = results st @ [result],
               total_score = total_score st + score result,
               max_score = (if required result then max_score st + section_weight
                            else max_score st)\<rparr>)"

fun validate_loop :: "(string \<rightharpoonup> int) \<Rightarrow> string \<Rightarrow> section_dict list \<Rightarrow> loop_state \<Rightarrow> error + loop_state" where
  "validate_loop scoring prd_lower [] st = Inr st"
| "validate_loop scoring prd_lower (sec # secs) st =
     (case loop_body scoring prd_lower sec st of
        Inl e \<Rightarrow> Inl e
      | Inr st' \<Rightarrow> validate_loop scoring prd_lower secs st')"

definition overall_score :: "int \<Rightarrow> int \<Rightarrow> error + int" where
  "overall_score tot mx = (if mx > 0 then percentage tot mx else Inr 0)"

definition validate :: "template \<Rightarrow> string \<Rightarrow> error + ValidationResult list \<times> int" where
  "validate t prd_text =
     (let prd_lower = str_lower prd_text
      in case validate_loop (get_scoring t) prd_lower (get_sections t)
                \<lparr>results = [], total_score = 0, max_score = 0\<rparr> of
           Inl e \<Rightarrow> Inl e
         | Inr st \<Rightarrow>
             (case overall_score (total_score st) (max_score st) of
                Inl e \<Rightarrow> Inl e
              | Inr sc \<Rightarrow> Inr (results st, sc)))"

subsection \<open>\<^verbatim>\<open>ValidatorAgent.format_report\<close>\<close>

text \<open>
  The dictionary returned by \<^verbatim>\<open>format_report\<close>, without its \<^verbatim>\<open>status_emoji\<close> entry
  (a pictograph chosen with the status, read by no property below).
\<close>

record report =
  rep_score :: int
  status :: string
  missing_critical :: "string list"
  missing_high :: "string list"
  missing_medium :: "string list"
  found_sections :: "string list"
  total_sections :: nat
  found_count :: nat
  missing_count :: int

text \<open>The four comprehensions of lines 114 to 117, as lists of results.\<close>

definition missing_critical_results :: "ValidationResult list \<Rightarrow> ValidationResult list" where
  "missing_critical_results rs =
     filter (\<lambda>r. \<not> found r \<and> required r \<and> severity r = ''critical'') rs"

definition missing_high_results :: "ValidationResult list \<Rightarrow> ValidationResult list" where
  "missing_high_results rs =
     filter (\<lambda>r. \<not> found r \<and> required r \<and> severity r = ''high'') rs"

definition missing_medium_results :: "ValidationResult list \<Rightarrow> ValidationResult list" where
  "missing_medium_results rs =
     filter (\<lambda>r. \<not> found r \<and> severity r = ''medium'') rs"

definition found_results :: "ValidationResult list \<Rightarrow> ValidationResult list" where
  "found_results rs = filter found rs"

definition status_of :: "int \<Rightarrow> string" where
  "status_of sc =
     (if sc \<ge> 90 then ''READY FOR REVIEW''
      else if sc \<ge> 70 then ''NEEDS IMPROVEMENT''
      else ''NOT READY'')"

definition format_report :: "ValidationResult list \<Rightarrow> int \<Rightarrow> report" where
  "format_report rs sc =
     \<lparr>rep_score = sc,
      status = status_of sc,
      missing_critical = map section_name (missing_critical_results rs),
      missing_high = map section_name (missing_high_results rs),
      missing_medium = map section_name (missing_medium_results rs),
      found_sections = map section_name (found_results rs),
      total_sections = length rs,
      found_count = length (found_results rs),
      missing_count = int (length rs) - int (length (found_results rs))\<rparr>"

subsection \<open>The vocabulary of the specification\<close>

text \<open>
  A section dictionary is well formed when the three keys read by subscript are present.
\<close>

definition wf_section :: "section_dict \<Rightarrow> bool" where
  "wf_section sec = (sec_name sec \<noteq> None \<and> sec_required sec \<noteq> None \<and> sec_severity sec \<noteq> None)"

definition get_keywords :: "section_dict \<Rightarrow> string list" where
  "get_keywords sec = (case sec_keywords sec of None \<Rightarrow> [] | Some ks \<Rightarrow> ks)"

text \<open>The weight configured for the severity tier of a section, 0 for an absent entry.\<close>

definition weight_of :: "(string \<rightharpoonup> int) \<Rightarrow> section_dict \<Rightarrow> int" where
  "weight_of scoring sec =
     (case sec_severity sec of
        None \<Rightarrow> 0
      | Some sev \<Rightarrow> (case scoring (sev @ ''_weight'') of None \<Rightarrow> 0 | Some w \<Rightarrow> w))"

text \<open>A section is matched when one of its lowercased keywords is in the lowercased text.\<close>

definition is_found :: "string \<Rightarrow> section_dict \<Rightarrow> bool" where
  "is_found prd_lower sec = (\<exists>kw \<in> set (get_keywords sec). str_contains (str_lower kw) prd_lower)"

text \<open>
  \<open>possible_total\<close>: the sum of the severity weights over the required sections.
  \<open>earned_total\<close>: the sum of the severity weights over the matched sections.
\<close>

definition possible_total :: "(string \<rightharpoonup> int) \<Rightarrow> section_dict list \<Rightarrow> int" where
  "possible_total scoring secs =
     sum_list (map (weight_of scoring) (filter (\<lambda>sec. sec_required sec = Some True) secs))"

definition earned_total :: "(string \<rightharpoonup> int) \<Rightarrow> string \<Rightarrow> section_dict list \<Rightarrow> int" where
  "earned_total scoring prd_lower secs =
     sum_list (map (weight_of scoring) (filter (is_found prd_lower) secs))"



text \<open>
  \<open>section_rel scoring prd_lower sec r\<close>: the loop body turns the section \<open>sec\<close> into
  the result \<open>r\<close>.
\<close>

definition section_rel :: "(string \<rightharpoonup> int) \<Rightarrow> string \<Rightarrow> section_dict \<Rightarrow> ValidationResult \<Rightarrow> bool" where
  "section_rel scoring pl sec r = (check_section scoring pl sec = Inr (r, weight_of scoring sec))"

text \<open>A section with one more keyword at the end of its keyword list.\<close>

definition add_keyword :: "string \<Rightarrow> section_dict \<Rightarrow> section_dict" where
  "add_keyword kw sec = sec\<lparr>sec_keywords := Some (get_keywords sec @ [kw])\<rparr>"

text \<open>
  What a section adds to the running totals, what the loop leaves in them, and the score
  component of the pair returned by \<^verbatim>\<open>validate\<close>.
\<close>

definition contribution :: "error + ValidationResult \<times> int \<Rightarrow> error + int \<times> bool \<times> int" where
  "contribution x = map_sum id (\<lambda>(r, w). (score r, required r, w)) x"

definition totals :: "error + loop_state \<Rightarrow> error + int \<times> int" where
  "totals x = map_sum id (\<lambda>st. (total_score st, max_score st)) x"

definition score_of :: "error + ValidationResult list \<times> int \<Rightarrow> error + int" where
  "score_of x = map_sum id snd x"

subsection \<open>Templates, documents and results used as examples\<close>

text \<open>
  A rubric with a critical section (keyword \<^verbatim>\<open>problem statement\<close>) and a high section
  (keyword \<^verbatim>\<open>success metrics\<close>), the two weights and the \<^verbatim>\<open>required\<close> flag of the
  second section being parameters.
\<close>

definition problem_statement_section :: section_dict where
  "problem_statement_section =
     \<lparr>sec_name = Some ''Problem Statement'', sec_required = Some True,
      sec_severity = Some ''critical'', sec_keywords = Some [''problem statement'']\<rparr>"

definition success_metrics_section :: "bool \<Rightarrow> section_dict" where
  "success_metrics_section req =
     \<lparr>sec_name = Some ''Success Metrics'', sec_required = Some req,
      sec_severity = Some ''high'', sec_keywords = Some [''success metrics'']\<rparr>"

definition two_tier_template :: "int \<Rightarrow> int \<Rightarrow> bool \<Rightarrow> template" where
  "two_tier_template cw hw req =
     \<lparr>tmpl_sections = Some [problem_statement_section, success_metrics_section req],
      tmpl_scoring = Some [''critical_weight'' \<mapsto> cw, ''high_weight'' \<mapsto> hw]\<rparr>"

definition scenario_document :: string where
  "scenario_document = ''This covers the Problem Statement in depth.''"

definition full_document :: string where
  "full_document = ''Problem statement and success metrics.''"

definition problem_statement_result :: "int \<Rightarrow> ValidationResult" where
  "problem_statement_result sc =
     \<lparr>section_name = ''Problem Statement'', required = True, found = True,
      severity = ''critical'', keywords_found = [''problem statement''], score = sc\<rparr>"

definition success_metrics_result :: "bool \<Rightarrow> bool \<Rightarrow> int \<Rightarrow> ValidationResult" where
  "success_metrics_result req fnd sc =
     \<lparr>section_name = ''Success Metrics'', required = req, found = fnd,
      severity = ''high'', keywords_found = (if fnd then [''success metrics''] else []),
      score = sc\<rparr>"

text \<open>A section of severity \<^verbatim>\<open>low\<close>, a tier with no entry in the scoring table.\<close>

definition appendix_section :: "bool option \<Rightarrow> section_dict" where
  "appendix_section req =
     \<lparr>sec_name = Some ''Appendix'', sec_required = req,
      sec_severity = Some ''low'', sec_keywords = Some [''appendix'']\<rparr>"

definition appendix_template :: "bool option \<Rightarrow> template" where
  "appendix_template req =
     \<lparr>tmpl_sections = Some [problem_statement_section, appendix_section req],
      tmpl_scoring = Some [''critical_weight'' \<mapsto> 40, ''high_weight'' \<mapsto> 20]\<rparr>"

definition appendix_document :: string where
  "appendix_document = ''Problem statement, then an appendix.''"


text \<open>A section whose only keyword is the empty string.\<close>

definition empty_keyword_template :: template where
  "empty_keyword_template =
     \<lparr>tmpl_sections = Some [\<lparr>sec_name = Some ''Problem Statement'', sec_required = Some True,
        sec_severity = Some ''critical'', sec_keywords = Some ['''']\<rparr>],
      tmpl_scoring = Some [''critical_weight'' \<mapsto> 40]\<rparr>"

text \<open>Section results of every kind, for the report.\<close>

definition report_fixture :: "ValidationResult list" where
  "report_fixture =
     [\<lparr>section_name = ''Overview'', required = True, found = True, severity = ''critical'',
       keywords_found = [''overview''], score = 40\<rparr>,
      \<lparr>section_name = ''Rollout Plan'', required = False, found = False, severity = ''medium'',
       keywords_found = [], score = 0\<rparr>,
      \<lparr>section_name = ''Security'', required = True, found = False, severity = ''critical'',
       keywords_found = [], score = 0\<rparr>,
      \<lparr>section_name = ''Timeline'', required = False, found = False, severity = ''high'',
       keywords_found = [], score = 0\<rparr>,
      \<lparr>section_name = ''Dependencies'', required = True, found = False, severity = ''high'',
       keywords_found = [], score = 0\<rparr>,
      \<lparr>section_name = ''Glossary'', required = True, found = False, severity = ''low'',
       keywords_found = [], score = 0\<rparr>]"

section \<open>Properties of the scan\<close>

subsection \<open>Substring search\<close>

lemma str_contains_sublist: "str_contains needle hay \<longleftrightarrow> sublist needle hay"
  by (induction hay) (auto simp: sublist_Cons_right)

lemma str_contains_Nil [simp]: "str_contains [] hay"
  by (simp add: str_contains_sublist)

lemma str_contains_in_Nil: "str_contains needle [] \<longleftrightarrow> needle = []"
  by simp

lemma str_lower_Nil_iff: "str_lower kw = [] \<longleftrightarrow> kw = []"
  by (simp add: str_lower_def)




subsection \<open>One section\<close>

lemma found_iff_is_found:
  "(0 < length (filter (\<lambda>kw. str_contains (str_lower kw) pl) (get_keywords sec))) = is_found pl sec"
  by (auto simp: is_found_def filter_empty_conv)

lemma check_section_wf:
  assumes "sec_name sec = Some n" "sec_required sec = Some rq" "sec_severity sec = Some sv"
  shows "check_section scoring pl sec =
           Inr (\<lparr>section_name = n, required = rq, found = is_found pl sec, severity = sv,
                 keywords_found = filter (\<lambda>kw. str_contains (str_lower kw) pl) (get_keywords sec),
                 score = (if is_found pl sec then weight_of scoring sec else 0)\<rparr>,
                weight_of scoring sec)"
  using assms found_iff_is_found [of pl sec]
  by (simp add: check_section_def weight_of_def get_keywords_def Let_def)

lemma check_section_Inr_iff:
  "(\<exists>x. check_section scoring pl sec = Inr x) \<longleftrightarrow> wf_section sec"
  by (auto simp: check_section_def wf_section_def Let_def split: option.splits)

lemma check_section_InrD:
  assumes "check_section scoring pl sec = Inr (r, w)"
  shows "sec_name sec = Some (section_name r)" "sec_required sec = Some (required r)"
        "sec_severity sec = Some (severity r)" "found r = is_found pl sec"
        "w = weight_of scoring sec" "score r = (if found r then w else 0)"
        "keywords_found r = filter (\<lambda>kw. str_contains (str_lower kw) pl) (get_keywords sec)"
  using assms found_iff_is_found [of pl sec]
  by (auto simp: check_section_def weight_of_def get_keywords_def Let_def split: option.splits)

lemma check_section_error:
  "check_section scoring pl sec = Inl e \<Longrightarrow> \<exists>k. e = KeyError k"
  by (auto simp: check_section_def Let_def split: option.splits)



lemma not_found_in_empty:
  "[] \<notin> set (get_keywords sec) \<Longrightarrow> \<not> is_found [] sec"
  by (auto simp: is_found_def str_lower_Nil_iff)

lemma weight_of_absent:
  "sec_severity sec = Some sev \<Longrightarrow> scoring (sev @ ''_weight'') = None \<Longrightarrow> weight_of scoring sec = 0"
  by (simp add: weight_of_def)

lemma check_section_absent_weight:
  assumes "scoring key = None"
  shows "check_section (scoring(key \<mapsto> 0)) pl sec = check_section scoring pl sec"
  using assms by (simp add: check_section_def Let_def split: option.splits)

lemma check_section_add_keyword:
  assumes "check_section scoring pl sec = Inr (r, w)" and "found r"
  shows "check_section scoring pl (add_keyword kw sec) =
           Inr (r\<lparr>keywords_found := filter (\<lambda>k. str_contains (str_lower k) pl) (get_keywords sec @ [kw])\<rparr>, w)"
proof -
  note d = check_section_InrD [OF assms(1)]
  have k: "sec_name (add_keyword kw sec) = Some (section_name r)"
    "sec_required (add_keyword kw sec) = Some (required r)"
    "sec_severity (add_keyword kw sec) = Some (severity r)"
    by (simp_all add: add_keyword_def d(1-3))
  have gk: "get_keywords (add_keyword kw sec) = get_keywords sec @ [kw]"
    by (simp add: add_keyword_def get_keywords_def)
  have f: "is_found pl (add_keyword kw sec)"
    using assms(2) d(4) by (auto simp: is_found_def gk)
  have w: "weight_of scoring (add_keyword kw sec) = w"
    by (simp add: d(5) weight_of_def add_keyword_def)
  have "is_found pl sec" using assms(2) d(4) by simp
  then show ?thesis
    using assms(2) d(4,6,7)
    by (simp add: check_section_wf [OF k] f w gk)
qed

subsection \<open>The loop\<close>

lemma validate_loop_wf:
  "list_all wf_section secs \<Longrightarrow>
   \<exists>rs. list_all2 (section_rel scoring pl) secs rs \<and>
        validate_loop scoring pl secs st =
          Inr \<lparr>results = results st @ rs,
               total_score = total_score st + earned_total scoring pl secs,
               max_score = max_score st + possible_total scoring secs\<rparr>"
proof (induction secs arbitrary: st)
  case Nil
  show ?case by (simp add: earned_total_def possible_total_def)
next
  case (Cons sec secs)
  from Cons.prems obtain n rq sv where
    k: "sec_name sec = Some n" "sec_required sec = Some rq" "sec_severity sec = Some sv"
    by (auto simp: wf_section_def)
  define r where "r = \<lparr>section_name = n, required = rq, found = is_found pl sec, severity = sv,
                 keywords_found = filter (\<lambda>kw. str_contains (str_lower kw) pl) (get_keywords sec),
                 score = (if is_found pl sec then weight_of scoring sec else 0)\<rparr>"
  have cs: "check_section scoring pl sec = Inr (r, weight_of scoring sec)"
    unfolding r_def by (rule check_section_wf [OF k])
  define st1 where "st1 = \<lparr>results = results st @ [r],
               total_score = total_score st + score r,
               max_score = (if required r then max_score st + weight_of scoring sec
                            else max_score st)\<rparr>"
  have lb: "loop_body scoring pl sec st = Inr st1"
    by (simp add: loop_body_def cs st1_def)
  from Cons.prems have "list_all wf_section secs" by simp
  from Cons.IH [OF this, of st1] obtain rs where
    rs: "list_all2 (section_rel scoring pl) secs rs"
    and vl: "validate_loop scoring pl secs st1 =
          Inr \<lparr>results = results st1 @ rs,
               total_score = total_score st1 + earned_total scoring pl secs,
               max_score = max_score st1 + possible_total scoring secs\<rparr>"
    by blast
  have e: "total_score st1 + earned_total scoring pl secs
             = total_score st + earned_total scoring pl (sec # secs)"
    by (simp add: st1_def r_def earned_total_def)
  have p: "max_score st1 + possible_total scoring secs
             = max_score st + possible_total scoring (sec # secs)"
    by (simp add: st1_def r_def possible_total_def k)
  have "list_all2 (section_rel scoring pl) (sec # secs) (r # rs)"
    using rs cs by (simp add: section_rel_def)
  moreover have "validate_loop scoring pl (sec # secs) st =
          Inr \<lparr>results = results st @ (r # rs),
               total_score = total_score st + earned_total scoring pl (sec # secs),
               max_score = max_score st + possible_total scoring (sec # secs)\<rparr>"
    using vl lb e p by (simp add: st1_def)
  ultimately show ?case by blast
qed


lemma validate_loop_error:
  "validate_loop scoring pl secs st = Inl e \<Longrightarrow> \<exists>k. e = KeyError k"
proof (induction secs arbitrary: st)
  case Nil
  then show ?case by simp
next
  case (Cons sec secs)
  then show ?case
    by (auto simp: loop_body_def split: sum.splits prod.splits dest: check_section_error)
qed

lemma validate_loop_absent_weight:
  assumes "scoring key = None"
  shows "validate_loop (scoring(key \<mapsto> 0)) pl secs st = validate_loop scoring pl secs st"
  using assms
  by (induction secs arbitrary: st)
     (simp_all add: loop_body_def check_section_absent_weight split: sum.splits)

lemma validate_loop_totals_cong:
  assumes "list_all2 (\<lambda>a b. contribution (check_section scoring pl a)
                               = contribution (check_section scoring pl b)) secs secs'"
    and "total_score st = total_score st'" and "max_score st = max_score st'"
  shows "totals (validate_loop scoring pl secs st) = totals (validate_loop scoring pl secs' st')"
  using assms
proof (induction arbitrary: st st' rule: list_all2_induct)
  case Nil
  then show ?case by (simp add: totals_def)
next
  case (Cons a secs b secs')
  show ?case
  proof (cases "check_section scoring pl a")
    case (Inl e)
    with Cons.hyps(1) have "check_section scoring pl b = Inl e"
      by (cases "check_section scoring pl b") (simp_all add: contribution_def)
    with Inl show ?thesis by (simp add: loop_body_def totals_def)
  next
    case (Inr x)
    obtain r w where x: "x = (r, w)" by (cases x)
    from Cons.hyps(1) Inr x obtain r' where
      b: "check_section scoring pl b = Inr (r', w)" and
      eq: "score r' = score r" "required r' = required r"
      by (cases "check_section scoring pl b") (auto simp: contribution_def)
    let ?s = "\<lparr>results = results st @ [r], total_score = total_score st + score r,
               max_score = (if required r then max_score st + w else max_score st)\<rparr>"
    let ?s' = "\<lparr>results = results st' @ [r'], total_score = total_score st' + score r',
               max_score = (if required r' then max_score st' + w else max_score st')\<rparr>"
    have "totals (validate_loop scoring pl secs ?s) = totals (validate_loop scoring pl secs' ?s')"
      by (rule Cons.IH) (simp_all add: eq Cons.prems)
    then show ?thesis
      by (simp add: loop_body_def Inr x b)
  qed
qed

lemma list_all2_right_member:
  "list_all2 P xs ys \<Longrightarrow> y \<in> set ys \<Longrightarrow> \<exists>x \<in> set xs. P x y"
  by (induction rule: list_all2_induct) auto


lemma section_rel_length:
  "list_all2 (section_rel scoring pl) secs rs \<Longrightarrow> length rs = length secs"
  by (simp add: list_all2_lengthD)

lemma possible_total_zero_cases:
  "\<forall>sec \<in> set secs. sec_required sec = Some True \<longrightarrow> weight_of scoring sec = 0
   \<Longrightarrow> possible_total scoring secs = 0"
  by (induction secs) (auto simp: possible_total_def)

lemma earned_total_empty:
  "\<forall>sec \<in> set secs. [] \<notin> set (get_keywords sec) \<Longrightarrow> earned_total scoring [] secs = 0"
  by (induction secs) (simp_all add: earned_total_def not_found_in_empty)

subsection \<open>The percentage\<close>

lemma percentage_zero: "0 < mx \<Longrightarrow> percentage 0 mx = Inr 0"
  by (simp add: percentage_def true_div_def round_binary64_def float_mul_def int_of_float_def)

lemma overall_score_zero_total: "overall_score 0 mx = Inr 0"
  by (simp add: overall_score_def percentage_zero)

lemma overall_score_nonpos_max: "mx \<le> 0 \<Longrightarrow> overall_score tot mx = Inr 0"
  by (simp add: overall_score_def)

lemma overall_score_no_KeyError: "overall_score tot mx \<noteq> Inl (KeyError k)"
  by (auto simp: overall_score_def percentage_def true_div_def int_of_float_def
      split: sum.splits option.splits prod.splits)

subsection \<open>The whole of \<^verbatim>\<open>validate\<close>\<close>

lemma validate_wf:
  assumes "list_all wf_section (get_sections t)"
  shows "\<exists>rs. list_all2 (section_rel (get_scoring t) (str_lower doc)) (get_sections t) rs \<and>
     validate t doc =
       (case overall_score (earned_total (get_scoring t) (str_lower doc) (get_sections t))
                           (possible_total (get_scoring t) (get_sections t)) of
          Inl e \<Rightarrow> Inl e
        | Inr sc \<Rightarrow> Inr (rs, sc))"
proof -
  from validate_loop_wf [OF assms, of "get_scoring t" "str_lower doc"
      "\<lparr>results = [], total_score = 0, max_score = 0\<rparr>"]
  obtain rs where rs: "list_all2 (section_rel (get_scoring t) (str_lower doc)) (get_sections t) rs"
    and vl: "validate_loop (get_scoring t) (str_lower doc) (get_sections t)
               \<lparr>results = [], total_score = 0, max_score = 0\<rparr> =
             Inr \<lparr>results = rs,
                  total_score = earned_total (get_scoring t) (str_lower doc) (get_sections t),
                  max_score = possible_total (get_scoring t) (get_sections t)\<rparr>"
    by auto
  have "validate t doc =
       (case overall_score (earned_total (get_scoring t) (str_lower doc) (get_sections t))
                           (possible_total (get_scoring t) (get_sections t)) of
          Inl e \<Rightarrow> Inl e
        | Inr sc \<Rightarrow> Inr (rs, sc))"
    by (simp add: validate_def vl Let_def split: sum.splits)
  with rs show ?thesis by blast
qed


lemma score_of_validate:
  "score_of (validate t doc) =
     (case totals (validate_loop (get_scoring t) (str_lower doc) (get_sections t)
                     \<lparr>results = [], total_score = 0, max_score = 0\<rparr>) of
        Inl e \<Rightarrow> Inl e
      | Inr (tot, mx) \<Rightarrow> overall_score tot mx)"
  by (simp add: score_of_def validate_def totals_def Let_def split: sum.splits)

subsection \<open>The report\<close>

lemmas report_defs = format_report_def missing_critical_results_def missing_high_results_def
  missing_medium_results_def found_results_def

lemma format_report_empty:
  "missing_critical (format_report [] sc) = []" "missing_high (format_report [] sc) = []"
  "missing_medium (format_report [] sc) = []" "found_sections (format_report [] sc) = []"
  by (simp_all add: format_report_def missing_critical_results_def missing_high_results_def
      missing_medium_results_def found_results_def)

subsection \<open>The worked scenarios\<close>

text \<open>
  Scenario 1 of the specification: weights 40 and 20, both sections required, and a
  document that names only the problem statement. The score is 66, the critical bucket
  is empty and the high bucket holds the second section.
\<close>

lemma scenario_1:
  "validate (two_tier_template 40 20 True) scenario_document =
     Inr ([problem_statement_result 40, success_metrics_result True False 0], 66)"
  by code_simp

lemma scenario_1_report:
  "missing_critical (format_report [problem_statement_result 40, success_metrics_result True False 0] 66) = []"
  "missing_high (format_report [problem_statement_result 40, success_metrics_result True False 0] 66) = [''Success Metrics'']"
  by code_simp+

lemma appendix_scores:
  "validate (appendix_template (Some True)) appendix_document =
     Inr ([problem_statement_result 40,
           \<lparr>section_name = ''Appendix'', required = True, found = True, severity = ''low'',
            keywords_found = [''appendix''], score = 0\<rparr>], 100)"
  by code_simp

section \<open>The claims\<close>

text \<open>
  C1. For every document and every rubric whose possible total is positive, the overall
  score returned by \<^verbatim>\<open>validate\<close> lies between 0 and 100. The class and
  \<^verbatim>\<open>format_report\<close> document the score as 0-100, but the loop adds the weight of a
  matched optional section to \<^verbatim>\<open>total_score\<close> and not to \<^verbatim>\<open>max_score\<close>: with a
  required critical section of weight 40 and an optional high section of weight 20, both
  matched, the possible total is 40 and the score is 150.
\<close>

theorem C1_score_above_100:
  "possible_total (get_scoring (two_tier_template 40 20 False))
      (get_sections (two_tier_template 40 20 False)) = 40 \<and>
   validate (two_tier_template 40 20 False) full_document =
     Inr ([problem_statement_result 40, success_metrics_result False True 20], 150)"
  by code_simp

text \<open>
  C2. For a positive possible total the overall score is the exact quotient
  \<open>earned_total * 100 / possible_total\<close> truncated toward zero. Line 98 computes it in
  binary floating point instead: with the weights 29 and 71, both sections required and
  only the first one matched, the earned total is 29 and the possible total 100, the exact
  truncation is 29, and \<^verbatim>\<open>validate\<close> returns 28. (The scenario of the claim itself,
  weights 40 and 20, gives 66: lemma \<open>scenario_1\<close>.)
\<close>

theorem C2_truncation_one_below:
  "earned_total (get_scoring (two_tier_template 29 71 True)) (str_lower scenario_document)
      (get_sections (two_tier_template 29 71 True)) = 29 \<and>
   possible_total (get_scoring (two_tier_template 29 71 True))
      (get_sections (two_tier_template 29 71 True)) = 100 \<and>
   validate (two_tier_template 29 71 True) scenario_document =
     Inr ([problem_statement_result 29, success_metrics_result True False 0], 28) \<and>
   (29 * 100) div 100 = (29 :: int)"
  by code_simp

text \<open>
  C3. If the possible total of a rubric is 0 (no sections, no required section, or every
  required section of weight 0: lemma \<open>possible_total_zero_cases\<close>), \<^verbatim>\<open>validate\<close>
  returns the overall score 0 for every document and raises nothing; with no section at
  all it returns the empty list of results, and every bucket of the report is empty.
  A rubric is a template whose sections carry the keys \<^verbatim>\<open>name\<close>, \<^verbatim>\<open>required\<close> and
  \<^verbatim>\<open>severity\<close>.
\<close>

theorem C3_zero_possible_total:
  "(list_all wf_section (get_sections t) \<and>
      possible_total (get_scoring t) (get_sections t) = 0
      \<longrightarrow> (\<exists>rs. validate t doc = Inr (rs, 0) \<and> length rs = length (get_sections t)))
   \<and> (get_sections t = []
      \<longrightarrow> validate t doc = Inr ([], 0) \<and>
          missing_critical (format_report [] 0) = [] \<and>
          missing_high (format_report [] 0) = [] \<and>
          missing_medium (format_report [] 0) = [] \<and>
          found_sections (format_report [] 0) = [])"
proof (intro conjI impI)
  assume a: "list_all wf_section (get_sections t) \<and>
      possible_total (get_scoring t) (get_sections t) = 0"
  from validate_wf [of t doc] a obtain rs where
    rs: "list_all2 (section_rel (get_scoring t) (str_lower doc)) (get_sections t) rs"
    and v: "validate t doc =
       (case overall_score (earned_total (get_scoring t) (str_lower doc) (get_sections t))
                           (possible_total (get_scoring t) (get_sections t)) of
          Inl e \<Rightarrow> Inl e
        | Inr sc \<Rightarrow> Inr (rs, sc))"
    by blast
  have "validate t doc = Inr (rs, 0)"
    using a by (simp add: v overall_score_nonpos_max)
  with rs show "\<exists>rs. validate t doc = Inr (rs, 0) \<and> length rs = length (get_sections t)"
    by (auto dest: section_rel_length)
next
  assume e: "get_sections t = []"
  show "validate t doc = Inr ([], 0)"
    by (simp add: validate_def e overall_score_def Let_def)
qed (simp_all add: format_report_empty)

theorem C3_zero_possible_total_witness:
  "list_all wf_section (get_sections (two_tier_template 0 0 True)) \<and>
   possible_total (get_scoring (two_tier_template 0 0 True))
      (get_sections (two_tier_template 0 0 True)) = 0 \<and>
   (\<exists>rs. validate (two_tier_template 0 0 True) scenario_document = Inr (rs, 0) \<and>
      length rs = length (get_sections (two_tier_template 0 0 True))) \<and>
   get_sections \<lparr>tmpl_sections = None, tmpl_scoring = None\<rparr> = [] \<and>
   validate \<lparr>tmpl_sections = None, tmpl_scoring = None\<rparr> scenario_document = Inr ([], 0)"
proof -
  have h1: "list_all wf_section (get_sections (two_tier_template 0 0 True))"
    by code_simp
  have h2: "possible_total (get_scoring (two_tier_template 0 0 True))
      (get_sections (two_tier_template 0 0 True)) = 0"
    by code_simp
  have h3: "get_sections \<lparr>tmpl_sections = None, tmpl_scoring = None\<rparr> = []"
    by (simp add: get_sections_def)
  show ?thesis
    using C3_zero_possible_total [of "two_tier_template 0 0 True" scenario_document]
      C3_zero_possible_total [of "\<lparr>tmpl_sections = None, tmpl_scoring = None\<rparr>" scenario_document]
      h1 h2 h3
    by simp
qed



text \<open>
  C5. \<^verbatim>\<open>format_report\<close> puts a result into \<^verbatim>\<open>missing_medium\<close> whenever it is not
  found and of severity \<^verbatim>\<open>medium\<close>, whatever its \<^verbatim>\<open>required\<close> flag;
  \<^verbatim>\<open>missing_critical\<close> and \<^verbatim>\<open>missing_high\<close> hold the names of the results that are
  required, not found and of that severity, and of no other; \<^verbatim>\<open>found_sections\<close> holds
  the names of exactly the found results.
\<close>

theorem C5_report_buckets:
  "(\<forall>r \<in> set rs. \<not> found r \<and> severity r = ''medium''
       \<longrightarrow> section_name r \<in> set (missing_medium (format_report rs sc)))
   \<and> missing_medium (format_report rs sc) =
       map section_name (filter (\<lambda>r. \<not> found r \<and> severity r = ''medium'') rs)
   \<and> (\<forall>n \<in> set (missing_critical (format_report rs sc)).
         \<exists>r \<in> set rs. section_name r = n \<and> required r \<and> \<not> found r \<and> severity r = ''critical'')
   \<and> (\<forall>n \<in> set (missing_high (format_report rs sc)).
         \<exists>r \<in> set rs. section_name r = n \<and> required r \<and> \<not> found r \<and> severity r = ''high'')
   \<and> (\<forall>r \<in> set rs. required r \<and> \<not> found r \<and> severity r = ''critical''
       \<longrightarrow> section_name r \<in> set (missing_critical (format_report rs sc)))
   \<and> (\<forall>r \<in> set rs. required r \<and> \<not> found r \<and> severity r = ''high''
       \<longrightarrow> section_name r \<in> set (missing_high (format_report rs sc)))
   \<and> found_sections (format_report rs sc) = map section_name (filter found rs)"
  by (auto simp: report_defs)

theorem C5_report_buckets_witness:
  "missing_medium (format_report report_fixture 40) = [''Rollout Plan''] \<and>
   missing_critical (format_report report_fixture 40) = [''Security''] \<and>
   missing_high (format_report report_fixture 40) = [''Dependencies''] \<and>
   found_sections (format_report report_fixture 40) = [''Overview''] \<and>
   \<not> required (report_fixture ! 1) \<and>
   section_name (report_fixture ! 1) \<in> set (missing_medium (format_report report_fixture 40))"
proof -
  have e: "missing_medium (format_report report_fixture 40) = [''Rollout Plan'']"
    "missing_critical (format_report report_fixture 40) = [''Security'']"
    "missing_high (format_report report_fixture 40) = [''Dependencies'']"
    "found_sections (format_report report_fixture 40) = [''Overview'']"
    by code_simp+
  have m: "report_fixture ! 1 \<in> set report_fixture" "\<not> found (report_fixture ! 1)"
    "severity (report_fixture ! 1) = ''medium''" "\<not> required (report_fixture ! 1)"
    by code_simp+
  show ?thesis
    using C5_report_buckets [of report_fixture 40] e m by blast
qed

text \<open>
  C6, as amended. For a template whose sections all carry \<^verbatim>\<open>name\<close>, \<^verbatim>\<open>required\<close>
  and \<^verbatim>\<open>severity\<close>, a section of a severity tier with no entry in the scoring table has
  weight 0 and score 0, \<^verbatim>\<open>validate\<close> raises no \<^verbatim>\<open>KeyError\<close>, and it returns what it
  returns for the same template with the entry present and equal to 0.
\<close>

theorem C6_absent_weight_counts_zero:
  assumes "list_all wf_section (get_sections t)"
    and "sec \<in> set (get_sections t)"
    and "sec_severity sec = Some sev"
    and "get_scoring t (sev @ ''_weight'') = None"
  shows "(\<exists>r. check_section (get_scoring t) (str_lower doc) sec = Inr (r, 0) \<and> score r = 0)
       \<and> (\<forall>k. validate t doc \<noteq> Inl (KeyError k))
       \<and> validate (t\<lparr>tmpl_scoring := Some ((get_scoring t)(sev @ ''_weight'' \<mapsto> 0))\<rparr>) doc
           = validate t doc"
proof (intro conjI allI)
  from assms(1,2) have "wf_section sec" by (simp add: list_all_iff)
  then obtain x where "check_section (get_scoring t) (str_lower doc) sec = Inr x"
    using check_section_Inr_iff [of "get_scoring t" "str_lower doc" sec] by blast
  then obtain r w where c: "check_section (get_scoring t) (str_lower doc) sec = Inr (r, w)"
    by (cases x) simp
  have w: "w = 0"
    using check_section_InrD(5) [OF c] weight_of_absent [of sec sev "get_scoring t"] assms(3,4)
    by simp
  have "score r = 0"
    using check_section_InrD(6) [OF c] w by simp
  with c w show "\<exists>r. check_section (get_scoring t) (str_lower doc) sec = Inr (r, 0) \<and> score r = 0"
    by blast
next
  fix k
  from validate_wf [OF assms(1), of doc] obtain rs where
    v: "validate t doc =
       (case overall_score (earned_total (get_scoring t) (str_lower doc) (get_sections t))
                           (possible_total (get_scoring t) (get_sections t)) of
          Inl e \<Rightarrow> Inl e
        | Inr sc \<Rightarrow> Inr (rs, sc))"
    by blast
  show "validate t doc \<noteq> Inl (KeyError k)"
    using overall_score_no_KeyError [of "earned_total (get_scoring t) (str_lower doc) (get_sections t)"
        "possible_total (get_scoring t) (get_sections t)" k]
    by (auto simp: v split: sum.splits)
next
  show "validate (t\<lparr>tmpl_scoring := Some ((get_scoring t)(sev @ ''_weight'' \<mapsto> 0))\<rparr>) doc
           = validate t doc"
    by (simp add: validate_def get_scoring_def [of "t\<lparr>tmpl_scoring := _\<rparr>"]
        get_sections_def validate_loop_absent_weight assms(4))
qed

theorem C6_absent_weight_counts_zero_witness:
  "list_all wf_section (get_sections (appendix_template (Some True))) \<and>
   appendix_section (Some True) \<in> set (get_sections (appendix_template (Some True))) \<and>
   sec_severity (appendix_section (Some True)) = Some ''low'' \<and>
   get_scoring (appendix_template (Some True)) (''low'' @ ''_weight'') = None \<and>
   (\<exists>r. check_section (get_scoring (appendix_template (Some True))) (str_lower appendix_document)
          (appendix_section (Some True)) = Inr (r, 0) \<and> score r = 0) \<and>
   (\<forall>k. validate (appendix_template (Some True)) appendix_document \<noteq> Inl (KeyError k))"
proof -
  have h1: "list_all wf_section (get_sections (appendix_template (Some True)))"
    by code_simp
  have h2: "appendix_section (Some True) \<in> set (get_sections (appendix_template (Some True)))"
    by code_simp
  have h3: "sec_severity (appendix_section (Some True)) = Some ''low''"
    by code_simp
  have h4: "get_scoring (appendix_template (Some True)) (''low'' @ ''_weight'') = None"
    by code_simp
  from C6_absent_weight_counts_zero [OF h1 h2 h3 h4, of appendix_document] h1 h2 h3 h4
  show ?thesis by blast
qed

text \<open>
  C6 as stated says that \<^verbatim>\<open>validate\<close> never raises on a malformed rubric. A rubric
  that names the tier \<^verbatim>\<open>low\<close>, which has no weight, and whose section of that tier lacks
  the key \<^verbatim>\<open>required\<close> makes line 66 raise \<^verbatim>\<open>KeyError\<close>.
\<close>

theorem C6_counterexample:
  "get_scoring (appendix_template None) ''low_weight'' = None \<and>
   sec_severity (appendix_section None) = Some ''low'' \<and>
   appendix_section None \<in> set (get_sections (appendix_template None)) \<and>
   validate (appendix_template None) appendix_document = Inl (KeyError ''required'')"
  by code_simp

text \<open>
  C7. The status of the report depends on the score alone: a score of 90 or more gives
  \<^verbatim>\<open>READY FOR REVIEW\<close>, a score from 70 to 89 gives \<^verbatim>\<open>NEEDS IMPROVEMENT\<close>, and a
  score below 70 gives \<^verbatim>\<open>NOT READY\<close>.
\<close>

theorem C7_status_thresholds:
  "(90 \<le> sc \<longrightarrow> status (format_report rs sc) = ''READY FOR REVIEW'')
   \<and> (70 \<le> sc \<and> sc \<le> 89 \<longrightarrow> status (format_report rs sc) = ''NEEDS IMPROVEMENT'')
   \<and> (sc < 70 \<longrightarrow> status (format_report rs sc) = ''NOT READY'')
   \<and> status (format_report rs sc) = status (format_report rs' sc)"
  by (simp add: format_report_def status_of_def)

theorem C7_status_thresholds_witness:
  "status (format_report report_fixture 90) = ''READY FOR REVIEW'' \<and>
   status (format_report report_fixture 150) = ''READY FOR REVIEW'' \<and>
   status (format_report report_fixture 89) = ''NEEDS IMPROVEMENT'' \<and>
   status (format_report report_fixture 70) = ''NEEDS IMPROVEMENT'' \<and>
   status (format_report report_fixture 69) = ''NOT READY'' \<and>
   status (format_report [] 69) = ''NOT READY''"
  using C7_status_thresholds [of 90 report_fixture "[]"]
    C7_status_thresholds [of 150 report_fixture "[]"]
    C7_status_thresholds [of 89 report_fixture "[]"]
    C7_status_thresholds [of 70 report_fixture "[]"]
    C7_status_thresholds [of 69 report_fixture "[]"]
  by auto

text \<open>
  C8, as amended. For a rubric none of whose keywords is the empty string, the empty
  document gives one result per section, none of them found and each of score 0, and the
  overall score 0.
\<close>

theorem C8_empty_document:
  assumes "list_all wf_section (get_sections t)"
    and "\<forall>sec \<in> set (get_sections t). [] \<notin> set (get_keywords sec)"
  shows "\<exists>rs. validate t [] = Inr (rs, 0) \<and> length rs = length (get_sections t) \<and>
              list_all (\<lambda>r. \<not> found r \<and> score r = 0) rs"
proof -
  from validate_wf [OF assms(1), of "[]"] obtain rs where
    rs: "list_all2 (section_rel (get_scoring t) []) (get_sections t) rs"
    and v: "validate t [] =
       (case overall_score (earned_total (get_scoring t) [] (get_sections t))
                           (possible_total (get_scoring t) (get_sections t)) of
          Inl e \<Rightarrow> Inl e
        | Inr sc \<Rightarrow> Inr (rs, sc))"
    by (auto simp: str_lower_def)
  have "validate t [] = Inr (rs, 0)"
    by (simp add: v earned_total_empty [OF assms(2)] overall_score_zero_total)
  moreover have "length rs = length (get_sections t)"
    using rs by (rule section_rel_length)
  moreover have "list_all (\<lambda>r. \<not> found r \<and> score r = 0) rs"
    unfolding list_all_iff
  proof
    fix r assume "r \<in> set rs"
    with rs obtain sec where sec: "sec \<in> set (get_sections t)"
      and rel: "section_rel (get_scoring t) [] sec r"
      by (blast dest: list_all2_right_member)
    from rel have c: "check_section (get_scoring t) [] sec = Inr (r, weight_of (get_scoring t) sec)"
      by (simp add: section_rel_def)
    have "\<not> found r"
      using check_section_InrD(4) [OF c] not_found_in_empty assms(2) sec by simp
    then show "\<not> found r \<and> score r = 0"
      using check_section_InrD(6) [OF c] by simp
  qed
  ultimately show ?thesis by blast
qed

theorem C8_empty_document_witness:
  "list_all wf_section (get_sections (two_tier_template 40 20 True)) \<and>
   list_all (\<lambda>sec. [] \<notin> set (get_keywords sec)) (get_sections (two_tier_template 40 20 True)) \<and>
   (\<exists>rs. validate (two_tier_template 40 20 True) [] = Inr (rs, 0) \<and>
      length rs = length (get_sections (two_tier_template 40 20 True)) \<and>
      list_all (\<lambda>r. \<not> found r \<and> score r = 0) rs)"
proof -
  have h1: "list_all wf_section (get_sections (two_tier_template 40 20 True))"
    by code_simp
  have h2: "list_all (\<lambda>sec. [] \<notin> set (get_keywords sec))
              (get_sections (two_tier_template 40 20 True))"
    by code_simp
  then have h3: "\<forall>sec \<in> set (get_sections (two_tier_template 40 20 True)).
                  [] \<notin> set (get_keywords sec)"
    by (simp only: list_all_iff)
  from C8_empty_document [OF h1 h3] h1 h2 show ?thesis by blast
qed

text \<open>
  C8 as stated covers every non-empty rubric. The empty string is a substring of the
  empty document, so a section with the keyword \<^verbatim>\<open>""\<close> is found there and scores.
\<close>

theorem C8_counterexample:
  "get_sections empty_keyword_template \<noteq> [] \<and>
   validate empty_keyword_template [] =
     Inr ([\<lparr>section_name = ''Problem Statement'', required = True, found = True,
            severity = ''critical'', keywords_found = [''''], score = 40\<rparr>], 100)"
  by code_simp

text \<open>
  C9. When the result of a section is found, one more keyword that matches the document,
  appended to the keywords of that section, leaves the weight and the score of the section
  as they were (the new result is found and lists the keyword as matched), and
  \<^verbatim>\<open>validate\<close> on the template so changed returns the same overall score, or raises the
  same error.
\<close>

theorem C9_extra_matching_keyword:
  assumes "i < length (get_sections t)"
    and "check_section (get_scoring t) (str_lower doc) (get_sections t ! i) = Inr (r, w)"
    and "found r"
    and "str_contains (str_lower kw) (str_lower doc)"
  shows "(\<exists>r'. check_section (get_scoring t) (str_lower doc) (add_keyword kw (get_sections t ! i))
                  = Inr (r', w) \<and>
               found r' \<and> score r' = score r \<and>
               keywords_found r' = keywords_found r @ [kw]) \<and>
         score_of (validate
            (t\<lparr>tmpl_sections := Some ((get_sections t)[i := add_keyword kw (get_sections t ! i)])\<rparr>)
            doc) = score_of (validate t doc)"
proof
  let ?sec = "get_sections t ! i"
  let ?r' = "r\<lparr>keywords_found := filter (\<lambda>k. str_contains (str_lower k) (str_lower doc))
                                   (get_keywords ?sec @ [kw])\<rparr>"
  have c: "check_section (get_scoring t) (str_lower doc) (add_keyword kw ?sec) = Inr (?r', w)"
    using assms(2,3) by (rule check_section_add_keyword)
  have "keywords_found ?r' = keywords_found r @ [kw]"
    using check_section_InrD(7) [OF assms(2)] assms(4) by simp
  with c show "\<exists>r'. check_section (get_scoring t) (str_lower doc) (add_keyword kw ?sec) = Inr (r', w) \<and>
               found r' \<and> score r' = score r \<and> keywords_found r' = keywords_found r @ [kw]"
    using assms(3) by (intro exI [of _ ?r']) simp
  let ?t' = "t\<lparr>tmpl_sections := Some ((get_sections t)[i := add_keyword kw ?sec])\<rparr>"
  let ?P = "\<lambda>a b. contribution (check_section (get_scoring t) (str_lower doc) a)
                   = contribution (check_section (get_scoring t) (str_lower doc) b)"
  have "list_all2 ?P (get_sections t) (get_sections t)"
    by (simp add: list_all2_same)
  moreover have "?P ?sec (add_keyword kw ?sec)"
    by (simp add: contribution_def c assms(2))
  ultimately have "list_all2 ?P ((get_sections t)[i := ?sec]) ((get_sections t)[i := add_keyword kw ?sec])"
    by (rule list_all2_update_cong)
  then have l: "list_all2 ?P (get_sections t) (get_sections ?t')"
    by (simp add: get_sections_def [of ?t'])
  have "get_scoring ?t' = get_scoring t"
    by (simp add: get_scoring_def)
  then show "score_of (validate ?t' doc) = score_of (validate t doc)"
    using validate_loop_totals_cong [OF l, of "\<lparr>results = [], total_score = 0, max_score = 0\<rparr>"
        "\<lparr>results = [], total_score = 0, max_score = 0\<rparr>"]
    by (simp add: score_of_validate)
qed

theorem C9_extra_matching_keyword_witness:
  "0 < length (get_sections (two_tier_template 40 20 True)) \<and>
   check_section (get_scoring (two_tier_template 40 20 True)) (str_lower scenario_document)
      (get_sections (two_tier_template 40 20 True) ! 0) = Inr (problem_statement_result 40, 40) \<and>
   found (problem_statement_result 40) \<and>
   str_contains (str_lower ''In Depth'') (str_lower scenario_document) \<and>
   (\<exists>r'. check_section (get_scoring (two_tier_template 40 20 True)) (str_lower scenario_document)
            (add_keyword ''In Depth'' (get_sections (two_tier_template 40 20 True) ! 0)) = Inr (r', 40) \<and>
          found r' \<and> score r' = score (problem_statement_result 40) \<and>
          keywords_found r' = keywords_found (problem_statement_result 40) @ [''In Depth'']) \<and>
   score_of (validate
      ((two_tier_template 40 20 True)\<lparr>tmpl_sections :=
          Some ((get_sections (two_tier_template 40 20 True))
                  [0 := add_keyword ''In Depth'' (get_sections (two_tier_template 40 20 True) ! 0)])\<rparr>)
      scenario_document) = Inr 66"
proof -
  have h1: "0 < length (get_sections (two_tier_template 40 20 True))"
    by code_simp
  have h2: "check_section (get_scoring (two_tier_template 40 20 True)) (str_lower scenario_document)
      (get_sections (two_tier_template 40 20 True) ! 0) = Inr (problem_statement_result 40, 40)"
    by code_simp
  have h3: "found (problem_statement_result 40)"
    by code_simp
  have h4: "str_contains (str_lower ''In Depth'') (str_lower scenario_document)"
    by code_simp
  have s: "score_of (validate (two_tier_template 40 20 True) scenario_document) = Inr 66"
    by (simp add: scenario_1 score_of_def)
  from C9_extra_matching_keyword [OF h1 h2 h3 h4] s h1 h2 h3 h4 show ?thesis
    by simp
qed

text \<open>
  C10. A result that is not found and whose severity is none of \<^verbatim>\<open>critical\<close>,
  \<^verbatim>\<open>high\<close> and \<^verbatim>\<open>medium\<close> is in none of the lists that \<^verbatim>\<open>format_report\<close> builds,
  required or not; when the section names are distinct its name is in no bucket of the
  report. It is counted in \<^verbatim>\<open>missing_count\<close>, the number of results not found.
\<close>

theorem C10_other_severity_in_no_bucket:
  assumes "r \<in> set rs" and "\<not> found r"
    and "severity r \<noteq> ''critical''" and "severity r \<noteq> ''high''" and "severity r \<noteq> ''medium''"
  shows "r \<notin> set (missing_critical_results rs) \<and>
         r \<notin> set (missing_high_results rs) \<and>
         r \<notin> set (missing_medium_results rs) \<and>
         r \<notin> set (found_results rs) \<and>
         (distinct (map section_name rs) \<longrightarrow>
            section_name r \<notin> set (missing_critical (format_report rs sc)) \<and>
            section_name r \<notin> set (missing_high (format_report rs sc)) \<and>
            section_name r \<notin> set (missing_medium (format_report rs sc)) \<and>
            section_name r \<notin> set (found_sections (format_report rs sc))) \<and>
         missing_count (format_report rs sc) = int (length (filter (\<lambda>x. \<not> found x) rs)) \<and>
         r \<in> set (filter (\<lambda>x. \<not> found x) rs)"
proof -
  have cnt: "int (length rs) - int (length (filter found rs))
               = int (length (filter (\<lambda>x. \<not> found x) rs))"
    using sum_length_filter_compl [of found rs] by simp
  have res: "r \<notin> set (missing_critical_results rs)" "r \<notin> set (missing_high_results rs)"
    "r \<notin> set (missing_medium_results rs)" "r \<notin> set (found_results rs)"
    using assms by (simp_all add: report_defs)
  have names: "section_name r \<notin> section_name ` set (filter P rs)"
    if d: "distinct (map section_name rs)" and np: "\<not> P r" for P
  proof
    assume "section_name r \<in> section_name ` set (filter P rs)"
    then obtain x where x: "x \<in> set rs" "P x" "section_name x = section_name r"
      by auto
    from d have "inj_on section_name (set rs)" by (simp add: distinct_map)
    with x(1,3) assms(1) have "x = r" by (auto dest: inj_onD)
    with x(2) np show False by simp
  qed
  have bucket: "distinct (map section_name rs) \<longrightarrow>
            section_name r \<notin> set (missing_critical (format_report rs sc)) \<and>
            section_name r \<notin> set (missing_high (format_report rs sc)) \<and>
            section_name r \<notin> set (missing_medium (format_report rs sc)) \<and>
            section_name r \<notin> set (found_sections (format_report rs sc))"
    using assms by (simp add: report_defs names del: set_filter)
  have mc: "missing_count (format_report rs sc) = int (length (filter (\<lambda>x. \<not> found x) rs))"
    by (simp add: format_report_def found_results_def cnt)
  have "r \<in> set (filter (\<lambda>x. \<not> found x) rs)"
    using assms by simp
  with res bucket mc show ?thesis by blast
qed

theorem C10_other_severity_in_no_bucket_witness:
  "\<lparr>section_name = ''Glossary'', required = True, found = False, severity = ''low'',
       keywords_found = [], score = 0\<rparr> \<in> set report_fixture \<and>
   distinct (map section_name report_fixture) \<and>
   ''Glossary'' \<notin> set (missing_critical (format_report report_fixture 40)) \<and>
   ''Glossary'' \<notin> set (missing_high (format_report report_fixture 40)) \<and>
   ''Glossary'' \<notin> set (missing_medium (format_report report_fixture 40)) \<and>
   missing_count (format_report report_fixture 40) = 5"
proof -
  let ?r = "\<lparr>section_name = ''Glossary'', required = True, found = False, severity = ''low'',
       keywords_found = [], score = 0\<rparr>"
  have h: "?r \<in> set report_fixture"
    by code_simp
  have d: "distinct (map section_name report_fixture)"
    by code_simp
  have n: "int (length (filter (\<lambda>x. \<not> found x) report_fixture)) = 5"
    by code_simp
  have f: "\<not> found ?r" "severity ?r \<noteq> ''critical''" "severity ?r \<noteq> ''high''"
    "severity ?r \<noteq> ''medium''" "section_name ?r = ''Glossary''"
    by simp_all
  note c = C10_other_severity_in_no_bucket [OF h f(1-4), of 40]
  from c d have
    "section_name ?r \<notin> set (missing_critical (format_report report_fixture 40)) \<and>
     section_name ?r \<notin> set (missing_high (format_report report_fixture 40)) \<and>
     section_name ?r \<notin> set (missing_medium (format_report report_fixture 40))"
    by blast
  moreover from c n have "missing_count (format_report report_fixture 40) = 5"
    by (simp only:)
  ultimately show ?thesis
    using h d by (simp only: f(5) simp_thms)
qed

end
